theory Spec2Isabelle
  imports Complex_Main "HOL-Library.Word" "HOL-Library.Multiset"
begin

section \<open>JavaScript values\<close>

text \<open>
  A JavaScript string is a sequence of UTF-16 code units. String literals of the source
  are ASCII and are written through \<open>js\<close>.
\<close>

type_synonym jschar = "16 word"
type_synonym jsstring = "jschar list"

definition js :: "string \<Rightarrow> jsstring" where
  "js s = map (\<lambda>c. of_nat (of_char c)) s"

text \<open>
  The values a parsed request body can hold. \<open>JNum\<close> covers the integer-valued numbers
  of magnitude below \<open>10^21\<close>, which \<open>String\<close> prints as a plain decimal numeral;
  \<open>JObj\<close> lists the own properties of a plain object.
\<close>

datatype jsval =
    JUndefined
  | JNull
  | JBool bool
  | JNum int
  | JStr jsstring
  | JArr "jsval list"
  | JObj "(jsstring \<times> jsval) list"

datatype error = TypeError | CastError | ValidationError | DuplicateKeyError

fun truthy :: "jsval \<Rightarrow> bool" where
  "truthy JUndefined = False"
| "truthy JNull = False"
| "truthy (JBool b) = b"
| "truthy (JNum n) = (n \<noteq> 0)"
| "truthy (JStr s) = (s \<noteq> [])"
| "truthy (JArr xs) = True"
| "truthy (JObj ps) = True"

text \<open>The operator \<open>a || b\<close>.\<close>

definition or_js :: "jsval \<Rightarrow> jsval \<Rightarrow> jsval" where
  "or_js a b = (if truthy a then a else b)"

text \<open>Property access \<open>obj.k\<close> on the own properties of a parsed object.\<close>

definition get_prop :: "(jsstring \<times> jsval) list \<Rightarrow> string \<Rightarrow> jsval" where
  "get_prop obj k = (case map_of obj (js k) of None \<Rightarrow> JUndefined | Some v \<Rightarrow> v)"

definition digit_char :: "nat \<Rightarrow> jschar" where
  "digit_char d = of_nat (48 + d)"

function nat_digits :: "nat \<Rightarrow> jsstring" where
  "nat_digits n = (if n < 10 then [digit_char n] else nat_digits (n div 10) @ [digit_char (n mod 10)])"
  by pat_completeness auto
termination
  by (relation "measure id") auto

declare nat_digits.simps [simp del]

definition Number_toString :: "int \<Rightarrow> jsstring" where
  "Number_toString n = (if n < 0 then js ''-'' @ nat_digits (nat (- n)) else nat_digits (nat n))"

text \<open>
  \<open>String(value)\<close>. An array is joined with commas, \<open>null\<close> and \<open>undefined\<close> elements
  printing as the empty string. A plain object prints as \<open>[object Object]\<close> through
  \<open>Object.prototype.toString\<close>; when it has an own property \<open>toString\<close> (never callable
  in parsed JSON) the conversion to a primitive finds no usable method and throws a
  \<open>TypeError\<close>.
\<close>

fun ToString :: "jsval \<Rightarrow> error + jsstring"
  and join_elements :: "jsval list \<Rightarrow> error + jsstring" where
  "ToString JUndefined = Inr (js ''undefined'')"
| "ToString JNull = Inr (js ''null'')"
| "ToString (JBool b) = Inr (if b then js ''true'' else js ''false'')"
| "ToString (JNum n) = Inr (Number_toString n)"
| "ToString (JStr s) = Inr s"
| "ToString (JArr xs) = join_elements xs"
| "ToString (JObj ps) =
     (if map_of ps (js ''toString'') \<noteq> None then Inl TypeError
      else Inr (js ''[object Object]''))"
| "join_elements [] = Inr []"
| "join_elements (x # xs) =
     (case (if x = JUndefined \<or> x = JNull then Inr [] else ToString x) of
        Inl e \<Rightarrow> Inl e
      | Inr s \<Rightarrow>
          (if xs = [] then Inr s
           else (case join_elements xs of
                   Inl e \<Rightarrow> Inl e
                 | Inr r \<Rightarrow> Inr (s @ js '','' @ r))))"

text \<open>
  \<open>String.prototype.trim\<close> removes white space and line terminators from both ends.
\<close>

definition is_line_terminator :: "jschar \<Rightarrow> bool" where
  "is_line_terminator c = (c = 0x000A \<or> c = 0x000D \<or> c = 0x2028 \<or> c = 0x2029)"

definition is_white_space :: "jschar \<Rightarrow> bool" where
  "is_white_space c =
     (c = 0x0009 \<or> c = 0x000B \<or> c = 0x000C \<or> c = 0x0020 \<or> c = 0x00A0 \<or> c = 0x1680
      \<or> (0x2000 \<le> c \<and> c \<le> 0x200A) \<or> c = 0x202F \<or> c = 0x205F \<or> c = 0x3000
      \<or> c = 0xFEFF \<or> is_line_terminator c)"

definition trim :: "jsstring \<Rightarrow> jsstring" where
  "trim s = rev (dropWhile is_white_space (rev (dropWhile is_white_space s)))"

section \<open>Helpers\<close>

subsection \<open>generateRandomLocalPart\<close>

definition chars :: jsstring where
  "chars = js ''abcdefghijklmnopqrstuvwxyz0123456789''"

text \<open>
  A value of \<open>Math.random()\<close> is an IEEE 754 double in \<open>[0, 1)\<close>. The pair \<open>(m, k)\<close>
  stands for the double \<open>m / 2^k\<close>: every double in \<open>[0, 1)\<close> has this form with
  \<open>m < 2^53\<close>, \<open>k \<le> 1074\<close> and \<open>m < 2^k\<close>.
\<close>

type_synonym double = "nat \<times> nat"

definition is_random_value :: "double \<Rightarrow> bool" where
  "is_random_value r = (case r of (m, k) \<Rightarrow> m < 2 ^ 53 \<and> k \<le> 1074 \<and> m < 2 ^ k)"

text \<open>The number of binary digits of a natural number.\<close>

function bit_length :: "nat \<Rightarrow> nat" where
  "bit_length n = (if n = 0 then 0 else Suc (bit_length (n div 2)))"
  by pat_completeness auto
termination
  by (relation "measure id") auto

declare bit_length.simps [simp del]

text \<open>
  Rounding to the 53 significant binary digits of a double, to the nearest value and
  to the even one in a tie.
\<close>

definition round_to_53 :: "nat \<Rightarrow> nat" where
  "round_to_53 n =
     (let b = bit_length n
      in if b \<le> 53 then n
         else
           (let s = b - 53; q = n div 2 ^ s; rest = n mod 2 ^ s; half = 2 ^ (s - 1)
            in (if rest > half \<or> (rest = half \<and> odd q) then q + 1 else q) * 2 ^ s))"

text \<open>
  \<open>Math.floor(r * n)\<close> for a double \<open>r = m / 2^k\<close> and a small whole number \<open>n\<close>: the
  double product is the exact product \<open>m * n / 2^k\<close> with its numerator rounded to 53
  digits.
\<close>

definition floor_times :: "double \<Rightarrow> nat \<Rightarrow> nat" where
  "floor_times r n = (case r of (m, k) \<Rightarrow> round_to_53 (m * n) div 2 ^ k)"

text \<open>
  \<open>chars[Math.floor(r * chars.length)]\<close> appended to a string: an index outside the
  string reads \<open>undefined\<close>, which \<open>+=\<close> appends as the text \<open>undefined\<close>.
\<close>

definition pick_char :: "double \<Rightarrow> jsstring" where
  "pick_char r =
     (let k = floor_times r (length chars)
      in if k < length chars then [chars ! k] else js ''undefined'')"

text \<open>
  The loop \<open>for (let i = 0; i < length; i++)\<close>; \<open>rnd i\<close> is the value returned by the
  \<open>i\<close>-th call of \<open>Math.random()\<close>.
\<close>

function generate_loop :: "(nat \<Rightarrow> double) \<Rightarrow> nat \<Rightarrow> nat \<Rightarrow> jsstring \<Rightarrow> jsstring" where
  "generate_loop rnd len i local =
     (if i < len then generate_loop rnd len (Suc i) (local @ pick_char (rnd i)) else local)"
  by pat_completeness auto
termination
  by (relation "measure (\<lambda>(rnd, len, i, local). len - i)") auto

declare generate_loop.simps [simp del]

text \<open>The parameter \<open>length = 10\<close>: \<open>None\<close> is the call without an argument.\<close>

definition generateRandomLocalPart :: "(nat \<Rightarrow> double) \<Rightarrow> nat option \<Rightarrow> jsstring" where
  "generateRandomLocalPart rnd len =
     generate_loop rnd (case len of None \<Rightarrow> 10 | Some n \<Rightarrow> n) 0 []"

subsection \<open>extractEmail\<close>

definition lt_sign :: jschar where
  "lt_sign = 0x003C"

definition gt_sign :: jschar where
  "gt_sign = 0x003E"

text \<open>
  The regular expression \<open>/<(.+?)>/\<close>. After the opening bracket and a first character,
  the lazy group grows one character at a time until the next character is \<open>>\<close>; the dot
  does not match a line terminator.
\<close>

fun lazy_group :: "jsstring \<Rightarrow> jsstring \<Rightarrow> jsstring option" where
  "lazy_group acc [] = None"
| "lazy_group acc (c # cs) =
     (if c = gt_sign then Some acc
      else if is_line_terminator c then None
      else lazy_group (acc @ [c]) cs)"

fun match_here :: "jsstring \<Rightarrow> jsstring option" where
  "match_here (c # d # cs) =
     (if c = lt_sign \<and> \<not> is_line_terminator d then lazy_group [d] cs else None)"
| "match_here cs = None"

text \<open>\<open>str.match\<close>: the leftmost position where the expression matches; the result is group 1.\<close>

fun str_match :: "jsstring \<Rightarrow> jsstring option" where
  "str_match [] = None"
| "str_match (c # cs) =
     (case match_here (c # cs) of Some g \<Rightarrow> Some g | None \<Rightarrow> str_match cs)"

definition extractEmail :: "jsval \<Rightarrow> error + jsstring" where
  "extractEmail v =
     (if \<not> truthy v then Inr []
      else (case ToString v of
              Inl e \<Rightarrow> Inl e
            | Inr s \<Rightarrow>
                (let str = trim s
                 in (case str_match str of Some g \<Rightarrow> Inr g | None \<Rightarrow> Inr str))))"

section \<open>The store\<close>

text \<open>
  An ObjectId, given by its hexadecimal text (the value of \<open>toString()\<close>). Dates are
  milliseconds since the epoch.
\<close>

datatype oid = ObjectId jsstring

fun oid_toString :: "oid \<Rightarrow> jsstring" where
  "oid_toString (ObjectId h) = h"

record mailbox =
  mb_id :: oid
  address :: jsstring
  userId :: "jsstring option"
  createdAt :: int
  expiresAt :: int
  isActive :: bool

record message =
  m_id :: oid
  m_mailboxId :: oid
  m_from :: jsstring
  m_to :: jsstring
  m_subject :: jsstring
  m_text :: jsstring
  m_html :: jsstring
  m_receivedAt :: int
  m_isRead :: bool

text \<open>The two collections, in insertion order.\<close>

record db =
  mailboxes :: "mailbox list"
  messages :: "message list"

text \<open>
  \<open>new Date(ms)\<close>: a time value beyond 8.64e15 milliseconds from the epoch gives an
  invalid date (\<open>None\<close>).
\<close>

definition new_Date :: "int \<Rightarrow> int option" where
  "new_Date ms = (if \<bar>ms\<bar> \<le> 8640000000000000 then Some ms else None)"

text \<open>
  \<open>Mailbox.create({ address, expiresAt })\<close> under \<open>mailboxSchema\<close>. The schema fills in
  \<open>createdAt\<close> with its own reading of the clock (\<open>default: Date.now\<close>), \<open>isActive\<close>
  with \<open>true\<close> and \<open>userId\<close> with \<open>null\<close>; \<open>newId\<close> is the identifier the driver
  assigns. The document is rejected when a required path is empty or invalid, or when
  the unique index on \<open>address\<close> already holds the address.
\<close>

definition Mailbox_create ::
  "int \<Rightarrow> oid \<Rightarrow> db \<Rightarrow> jsstring \<Rightarrow> int option \<Rightarrow> error + (mailbox \<times> db)" where
  "Mailbox_create clock newId d addr expires =
     (case expires of
        None \<Rightarrow> Inl ValidationError
      | Some e \<Rightarrow>
          if addr = [] then Inl ValidationError
          else if addr \<in> address ` set (mailboxes d) then Inl DuplicateKeyError
          else
            (let mb = \<lparr>mb_id = newId, address = addr, userId = None, createdAt = clock,
                       expiresAt = e, isActive = True\<rparr>
             in Inr (mb, d\<lparr>mailboxes := mailboxes d @ [mb]\<rparr>)))"

text \<open>\<open>Mailbox.findOne({ address: toEmail, isActive: true })\<close>.\<close>

definition Mailbox_findOne :: "db \<Rightarrow> jsstring \<Rightarrow> mailbox option" where
  "Mailbox_findOne d toEmail =
     find (\<lambda>mb. address mb = toEmail \<and> isActive mb) (mailboxes d)"

text \<open>
  The caster of a \<open>String\<close> path: a string is stored as it is. What the driver does
  with a value of another type is library code outside the repository and is taken as
  the parameter \<open>castString\<close> (\<open>None\<close> is a cast error).
\<close>

definition cast_path :: "(jsval \<Rightarrow> jsstring option) \<Rightarrow> jsval \<Rightarrow> jsstring option" where
  "cast_path castString v = (case v of JStr s \<Rightarrow> Some s | _ \<Rightarrow> castString v)"

text \<open>
  \<open>Message.create({ mailboxId, from, to, subject, text, html })\<close> under
  \<open>messageSchema\<close>: \<open>from\<close> and \<open>to\<close> are required (an empty string is rejected),
  \<open>receivedAt\<close> defaults to the clock and \<open>isRead\<close> to \<open>false\<close>.
\<close>

definition Message_create ::
  "(jsval \<Rightarrow> jsstring option) \<Rightarrow> int \<Rightarrow> oid \<Rightarrow> db \<Rightarrow> oid \<Rightarrow> jsstring \<Rightarrow> jsstring \<Rightarrow>
     jsval \<Rightarrow> jsval \<Rightarrow> jsval \<Rightarrow> error + (message \<times> db)" where
  "Message_create castString clock newId d mbId frm to_addr subj txt htm =
     (if frm = [] \<or> to_addr = [] then Inl ValidationError
      else
        (case (cast_path castString subj, cast_path castString txt, cast_path castString htm) of
           (Some s, Some t, Some h) \<Rightarrow>
             (let m = \<lparr>m_id = newId, m_mailboxId = mbId, m_from = frm, m_to = to_addr,
                       m_subject = s, m_text = t, m_html = h, m_receivedAt = clock,
                       m_isRead = False\<rparr>
              in Inr (m, d\<lparr>messages := messages d @ [m]\<rparr>))
         | _ \<Rightarrow> Inl CastError))"

text \<open>
  \<open>Message.find({ mailboxId: id }).sort({ receivedAt: -1 })\<close>: the messages of the
  mailbox, newest first. Messages received at the same time stay in insertion order.
\<close>

definition Message_find_sorted :: "db \<Rightarrow> oid \<Rightarrow> message list" where
  "Message_find_sorted d mbId =
     sort_key (\<lambda>m. - m_receivedAt m) (filter (\<lambda>m. m_mailboxId m = mbId) (messages d))"

section \<open>Routes\<close>

record formatted =
  f_id :: jsstring
  f_from :: jsstring
  f_to :: jsstring
  f_subject :: jsstring
  f_text :: jsstring
  f_html :: jsstring
  f_receivedAt :: int
  f_isRead :: bool

datatype body =
    StatusBody string
  | ErrorBody string
  | MailboxBody jsstring jsstring int
  | MessagesBody "formatted list"

datatype response = Response nat body

text \<open>A value of the object handed to \<open>emit\<close>.\<close>

datatype field = FString jsstring | FDate int

text \<open>An \<open>io.to(room).emit(event, payload)\<close>: the payload lists its properties in order.\<close>

record emission =
  e_room :: jsstring
  e_event :: string
  e_payload :: "(string \<times> field) list"

record outcome =
  response :: response
  store :: db
  emitted :: "emission list"

subsection \<open>POST /api/mailbox\<close>

text \<open>
  The environment. \<open>MAILBOX_TTL_MINUTES\<close> is \<open>None\<close> when the variable is unset or
  empty (the \<open>|| 60\<close> applies), and otherwise the integer that \<open>Number\<close> reads from
  its text.
\<close>

record env =
  MAIL_DOMAIN :: "jsstring option"
  MAILBOX_TTL_MINUTES :: "int option"

text \<open>
  \<open>now\<close> is the handler's \<open>new Date()\<close>, \<open>clock\<close> the later reading that the schema
  default of \<open>createdAt\<close> takes when the document is built.
\<close>

definition create_mailbox ::
  "env \<Rightarrow> (nat \<Rightarrow> double) \<Rightarrow> int \<Rightarrow> int \<Rightarrow> oid \<Rightarrow> db \<Rightarrow> response \<times> db" where
  "create_mailbox e rnd now clock newId d =
     (let domain = (case MAIL_DOMAIN e of
                      None \<Rightarrow> js ''example.com''
                    | Some dm \<Rightarrow> if dm \<noteq> [] then dm else js ''example.com'');
          localPart = generateRandomLocalPart rnd None;
          addr = localPart @ js ''@'' @ domain;
          ttlMinutes = (case MAILBOX_TTL_MINUTES e of None \<Rightarrow> 60 | Some n \<Rightarrow> n);
          expires = new_Date (now + ttlMinutes * 60 * 1000)
      in (case Mailbox_create clock newId d addr expires of
            Inl err \<Rightarrow> (Response 500 (ErrorBody ''Failed to create mailbox''), d)
          | Inr (mb, d') \<Rightarrow>
              (Response 200 (MailboxBody (oid_toString (mb_id mb)) (address mb) (expiresAt mb)),
               d')))"

subsection \<open>GET /api/mailbox/:id/messages\<close>

definition format_message :: "message \<Rightarrow> formatted" where
  "format_message m =
     \<lparr>f_id = oid_toString (m_id m), f_from = m_from m, f_to = m_to m,
      f_subject = m_subject m, f_text = m_text m, f_html = m_html m,
      f_receivedAt = m_receivedAt m, f_isRead = m_isRead m\<rparr>"

text \<open>
  The route parameter is text; the query casts it to an ObjectId. The cast is library
  code and is taken as the parameter \<open>castObjectId\<close>; when it fails, the query rejects
  and the handler answers 500.
\<close>

definition get_mailbox_messages ::
  "(jsstring \<Rightarrow> oid option) \<Rightarrow> db \<Rightarrow> jsstring \<Rightarrow> response" where
  "get_mailbox_messages castObjectId d idParam =
     (case castObjectId idParam of
        None \<Rightarrow> Response 500 (ErrorBody ''Failed to fetch messages'')
      | Some mbId \<Rightarrow> Response 200 (MessagesBody (map format_message (Message_find_sorted d mbId))))"

subsection \<open>POST /webhooks/inbound-email\<close>

definition webhook_error :: "db \<Rightarrow> outcome" where
  "webhook_error d =
     \<lparr>response = Response 500 (ErrorBody ''Webhook error''), store = d, emitted = []\<rparr>"

definition newMessage_payload :: "message \<Rightarrow> (string \<times> field) list" where
  "newMessage_payload m =
     [(''id'', FString (oid_toString (m_id m))),
      (''from'', FString (m_from m)),
      (''to'', FString (m_to m)),
      (''subject'', FString (m_subject m)),
      (''text'', FString (m_text m)),
      (''receivedAt'', FDate (m_receivedAt m))]"

text \<open>
  The handler. \<open>clock\<close> is the time at which the message document is built and \<open>newId\<close>
  the identifier it receives. Every exception inside the \<open>try\<close> block ends in the
  \<open>catch\<close> branch, \<open>webhook_error\<close>.
\<close>

text \<open>The aliases of each logical field, probed in order.\<close>

definition rawTo :: "(jsstring \<times> jsval) list \<Rightarrow> jsval" where
  "rawTo payload =
     or_js (or_js (or_js (or_js (get_prop payload ''to_email'') (get_prop payload ''to''))
       (get_prop payload ''recipient'')) (get_prop payload ''toAddress'')) (JStr [])"

definition rawFrom :: "(jsstring \<times> jsval) list \<Rightarrow> jsval" where
  "rawFrom payload =
     or_js (or_js (or_js (or_js (get_prop payload ''from_email'') (get_prop payload ''from''))
       (get_prop payload ''sender'')) (get_prop payload ''fromAddress'')) (JStr [])"

definition subject_of :: "(jsstring \<times> jsval) list \<Rightarrow> jsval" where
  "subject_of payload =
     or_js (or_js (or_js (get_prop payload ''subject'') (get_prop payload ''title''))
       (get_prop payload ''mail_subject'')) (JStr [])"

definition text_of :: "(jsstring \<times> jsval) list \<Rightarrow> jsval" where
  "text_of payload =
     or_js (or_js (or_js (or_js (get_prop payload ''text_body'') (get_prop payload ''text''))
       (get_prop payload ''body_text'')) (get_prop payload ''body'')) (JStr [])"

definition html_of :: "(jsstring \<times> jsval) list \<Rightarrow> jsval" where
  "html_of payload =
     or_js (or_js (or_js (get_prop payload ''html_body'') (get_prop payload ''html''))
       (get_prop payload ''body_html'')) (JStr [])"

definition inbound_email ::
  "(jsval \<Rightarrow> jsstring option) \<Rightarrow> int \<Rightarrow> oid \<Rightarrow> db \<Rightarrow> (jsstring \<times> jsval) list \<Rightarrow> outcome" where
  "inbound_email castString clock newId d payload =
     (case extractEmail (rawTo payload) of
        Inl err \<Rightarrow> webhook_error d
      | Inr toEmail \<Rightarrow>
     (case extractEmail (rawFrom payload) of
        Inl err \<Rightarrow> webhook_error d
      | Inr fromEmail \<Rightarrow>
          if toEmail = [] then
            \<lparr>response = Response 200 (StatusBody ''ignored_no_to_email''), store = d,
             emitted = []\<rparr>
          else
            (case Mailbox_findOne d toEmail of
               None \<Rightarrow>
                 \<lparr>response = Response 200 (StatusBody ''ignored_no_mailbox''), store = d,
                  emitted = []\<rparr>
             | Some mailbox \<Rightarrow>
                 (case Message_create castString clock newId d (mb_id mailbox)
                         (if fromEmail \<noteq> [] then fromEmail else js ''unknown@unknown'')
                         toEmail (or_js (subject_of payload) (JStr []))
                         (or_js (text_of payload) (JStr []))
                         (or_js (html_of payload) (JStr [])) of
                    Inl err \<Rightarrow> webhook_error d
                  | Inr (message, d') \<Rightarrow>
                      \<lparr>response = Response 200 (StatusBody ''ok''), store = d',
                       emitted =
                         [\<lparr>e_room = js ''mailbox:'' @ oid_toString (mb_id mailbox),
                           e_event = ''newMessage'',
                           e_payload = newMessage_payload message\<rparr>]\<rparr>))))"

section \<open>Notions used by the properties\<close>

text \<open>A lowercase letter \<open>a\<close> to \<open>z\<close> or a digit \<open>0\<close> to \<open>9\<close>.\<close>

definition is_lower_alnum :: "jschar \<Rightarrow> bool" where
  "is_lower_alnum c = ((0x61 \<le> c \<and> c \<le> 0x7A) \<or> (0x30 \<le> c \<and> c \<le> 0x39))"

text \<open>The length the generator is called with.\<close>

definition configured_length :: "nat option \<Rightarrow> nat" where
  "configured_length len = (case len of None \<Rightarrow> 10 | Some n \<Rightarrow> n)"

text \<open>
  A sample sequence of values of \<open>Math.random()\<close>. The first one,
  \<open>2001599834386887 / 2^53\<close>, has the exact product \<open>8 - 2^(-51)\<close> with 36, which the
  double product rounds to 8; the \<open>i\<close>-th of the others is \<open>i / 16\<close>.
\<close>

definition sample_rnd :: "nat \<Rightarrow> double" where
  "sample_rnd i = (if i = 0 then (2001599834386887, 53) else (i, 4))"




text \<open>A caster that stores strings only and rejects every other value.\<close>

definition strict_cast :: "jsval \<Rightarrow> jsstring option" where
  "strict_cast v = None"

text \<open>Sample data: a store with one active mailbox \<open>a@b.com\<close>, payloads, and the message
  the handler builds from \<open>example_payload\<close> at a given time.\<close>

definition example_id :: oid where
  "example_id = ObjectId (js ''6721a0000000000000000002'')"

definition example_mailbox :: mailbox where
  "example_mailbox =
     \<lparr>mb_id = ObjectId (js ''6721a0000000000000000001''), address = js ''a@b.com'',
      userId = None, createdAt = 0, expiresAt = 3600000, isActive = True\<rparr>"

definition example_db :: db where
  "example_db = \<lparr>mailboxes = [example_mailbox], messages = []\<rparr>"

definition empty_db :: db where
  "empty_db = \<lparr>mailboxes = [], messages = []\<rparr>"

definition example_payload :: "(jsstring \<times> jsval) list" where
  "example_payload = [(js ''to_email'', JStr (js ''a@b.com'')), (js ''subject'', JStr (js ''hi''))]"

text \<open>Payloads whose \<open>from\<close> field is the object \<open>{"toString": 1}\<close>.\<close>

definition throwing_from :: "(jsstring \<times> jsval) list" where
  "throwing_from = [(js ''from'', JObj [(js ''toString'', JNum 1)])]"

definition throwing_from_with_to :: "(jsstring \<times> jsval) list" where
  "throwing_from_with_to =
     [(js ''to'', JStr (js ''x@y.z'')), (js ''from'', JObj [(js ''toString'', JNum 1)])]"

definition unknown_to_payload :: "(jsstring \<times> jsval) list" where
  "unknown_to_payload = [(js ''to'', JStr (js ''Nobody <x@y.z>''))]"

definition example_message :: "int \<Rightarrow> message" where
  "example_message clock =
     \<lparr>m_id = example_id, m_mailboxId = ObjectId (js ''6721a0000000000000000001''),
      m_from = js ''unknown@unknown'', m_to = js ''a@b.com'', m_subject = js ''hi'', m_text = [],
      m_html = [], m_receivedAt = clock, m_isRead = False\<rparr>"

text \<open>The configured time to live, in milliseconds.\<close>

definition ttl_ms :: "env \<Rightarrow> int" where
  "ttl_ms e = (case MAILBOX_TTL_MINUTES e of None \<Rightarrow> 60 | Some n \<Rightarrow> n) * 60 * 1000"

definition default_env :: env where
  "default_env = \<lparr>MAIL_DOMAIN = None, MAILBOX_TTL_MINUTES = None\<rparr>"

definition created_mailbox :: "int \<Rightarrow> int \<Rightarrow> mailbox" where
  "created_mailbox clock expires =
     \<lparr>mb_id = example_id, address = js ''icegjlnpsu@example.com'', userId = None,
      createdAt = clock, expiresAt = expires, isActive = True\<rparr>"

text \<open>A sample cast of the route parameter: any text of 24 characters.\<close>

definition sample_castObjectId :: "jsstring \<Rightarrow> oid option" where
  "sample_castObjectId s = (if length s = 24 then Some (ObjectId s) else None)"

text \<open>
  A store with three messages: an older and a newer one of the sample mailbox, inserted
  in this order, and between them one of another mailbox.
\<close>

definition older_message :: message where
  "older_message =
     \<lparr>m_id = ObjectId (js ''6721a0000000000000000003''),
      m_mailboxId = ObjectId (js ''6721a0000000000000000001''),
      m_from = js ''unknown@unknown'', m_to = js ''a@b.com'', m_subject = js ''first'',
      m_text = [], m_html = [], m_receivedAt = 1000, m_isRead = False\<rparr>"

definition newer_message :: message where
  "newer_message =
     \<lparr>m_id = ObjectId (js ''6721a0000000000000000004''),
      m_mailboxId = ObjectId (js ''6721a0000000000000000001''),
      m_from = js ''c@d.org'', m_to = js ''a@b.com'', m_subject = js ''second'',
      m_text = js ''later'', m_html = js ''<p>later</p>'', m_receivedAt = 2000,
      m_isRead = False\<rparr>"

definition other_message :: message where
  "other_message =
     \<lparr>m_id = ObjectId (js ''6721a0000000000000000006''),
      m_mailboxId = ObjectId (js ''6721a0000000000000000005''),
      m_from = js ''e@f.net'', m_to = js ''z@b.com'', m_subject = js ''elsewhere'',
      m_text = [], m_html = [], m_receivedAt = 1500, m_isRead = False\<rparr>"

definition two_message_db :: db where
  "two_message_db =
     \<lparr>mailboxes = [example_mailbox],
      messages = [older_message, other_message, newer_message]\<rparr>"

section \<open>Properties\<close>

subsection \<open>generateRandomLocalPart\<close>

lemma chars_lower_alnum: "\<forall>c \<in> set chars. is_lower_alnum c"
  by (simp add: chars_def js_def is_lower_alnum_def)

lemma length_chars: "length chars = 36"
  by (simp add: chars_def js_def)

lemma bit_length_le: "n < 2 ^ j \<Longrightarrow> bit_length n \<le> j"
proof (induction n arbitrary: j rule: bit_length.induct)
  case (1 n)
  show ?case
  proof (cases "n = 0")
    case True
    then show ?thesis by (subst bit_length.simps) simp
  next
    case False
    with "1.prems" obtain i where j: "j = Suc i" by (cases j) auto
    with "1.prems" have "n div 2 < 2 ^ i" by auto
    from "1.IH" [OF False this] False j show ?thesis
      by (subst bit_length.simps) simp
  qed
qed

text \<open>Rounding moves a number below \<open>2^59\<close> up by at most 32.\<close>

lemma round_to_53_le:
  assumes "n < 2 ^ 59"
  shows "round_to_53 n \<le> n + 32"
proof (cases "bit_length n \<le> 53")
  case True
  then show ?thesis by (simp add: round_to_53_def)
next
  case False
  define s where "s = bit_length n - 53"
  define q where "q = n div 2 ^ s"
  define rest where "rest = n mod 2 ^ s"
  from assms have "bit_length n \<le> 59" by (rule bit_length_le)
  with False have s: "0 < s" "s \<le> 6" by (simp_all add: s_def)
  then obtain t where t: "s = Suc t" "t \<le> 5" by (cases s) auto
  have n: "n = q * 2 ^ s + rest" unfolding q_def rest_def by (rule div_mult_mod_eq [symmetric])
  have "(2::nat) ^ t \<le> 2 ^ 5" using t(2) by (intro power_increasing) simp_all
  then have half: "(2::nat) ^ t \<le> 32" by simp
  have r: "round_to_53 n =
      (if rest > 2 ^ t \<or> (rest = 2 ^ t \<and> odd q) then q + 1 else q) * 2 ^ s"
    using False t(1) by (simp add: round_to_53_def Let_def s_def [symmetric] q_def rest_def)
  show ?thesis
  proof (cases "rest > 2 ^ t \<or> (rest = 2 ^ t \<and> odd q)")
    case True
    then have "2 ^ t \<le> rest" by auto
    have "(q + 1) * 2 ^ s = q * 2 ^ s + 2 * 2 ^ t" by (simp add: t(1) algebra_simps)
    also have "\<dots> \<le> q * 2 ^ s + rest + 2 ^ t" using \<open>2 ^ t \<le> rest\<close> by simp
    also have "\<dots> \<le> n + 32" using n half by simp
    finally show ?thesis using True r by simp
  next
    case False
    with r have "round_to_53 n = q * 2 ^ s" by simp
    with n show ?thesis by simp
  qed
qed

lemma floor_times_chars:
  assumes "is_random_value r"
  shows "floor_times r 36 < 36"
proof -
  obtain m k where r: "r = (m, k)" by (cases r)
  with assms have m: "m < 2 ^ 53" "m < 2 ^ k" by (simp_all add: is_random_value_def)
  from m(1) have "m * 36 < 2 ^ 53 * 64" by simp
  then have "m * 36 < 2 ^ 59" by simp
  then have "round_to_53 (m * 36) \<le> m * 36 + 32" by (rule round_to_53_le)
  moreover from m(2) have "m + 1 \<le> 2 ^ k" by simp
  then have "(m + 1) * 36 \<le> 2 ^ k * 36" by (rule mult_le_mono1)
  ultimately have "round_to_53 (m * 36) < 36 * 2 ^ k" by simp
  then have "round_to_53 (m * 36) div 2 ^ k < 36"
    by (simp add: less_mult_imp_div_less)
  with r show ?thesis by (simp add: floor_times_def)
qed

lemma pick_char_in_range:
  assumes "is_random_value r"
  shows "\<exists>c. pick_char r = [c] \<and> c \<in> set chars"
proof -
  from floor_times_chars [OF assms] have k: "floor_times r (length chars) < length chars"
    by (simp add: length_chars)
  then have "chars ! floor_times r (length chars) \<in> set chars" by (rule nth_mem)
  with k show ?thesis by (simp add: pick_char_def Let_def)
qed

lemma generate_loop_length:
  "\<forall>j. i \<le> j \<and> j < len \<longrightarrow> is_random_value (rnd j) \<Longrightarrow>
   length (generate_loop rnd len i local) = length local + (len - i)"
proof (induction rnd len i local rule: generate_loop.induct)
  case (1 rnd len i local)
  show ?case
  proof (cases "i < len")
    case True
    with "1.prems" obtain c where c: "pick_char (rnd i) = [c]"
      using pick_char_in_range [of "rnd i"] by auto
    from "1.prems" have "\<forall>j. Suc i \<le> j \<and> j < len \<longrightarrow> is_random_value (rnd j)" by simp
    with "1.IH" [OF True] True c show ?thesis
      by (subst generate_loop.simps) simp
  next
    case False
    then show ?thesis by (subst generate_loop.simps) simp
  qed
qed

lemma generate_loop_set:
  "\<forall>j. i \<le> j \<and> j < len \<longrightarrow> is_random_value (rnd j) \<Longrightarrow>
   set (generate_loop rnd len i local) \<subseteq> set local \<union> set chars"
proof (induction rnd len i local rule: generate_loop.induct)
  case (1 rnd len i local)
  show ?case
  proof (cases "i < len")
    case True
    with "1.prems" obtain c where c: "pick_char (rnd i) = [c]" "c \<in> set chars"
      using pick_char_in_range [of "rnd i"] by auto
    from "1.prems" have "\<forall>j. Suc i \<le> j \<and> j < len \<longrightarrow> is_random_value (rnd j)" by simp
    with "1.IH" [OF True] True c show ?thesis
      by (subst generate_loop.simps) auto
  next
    case False
    then show ?thesis by (subst generate_loop.simps) simp
  qed
qed

text \<open>
  C8. Every generated local part has the length the generator was called with (10 when
  called without an argument, as the creation handler does) and consists only of the
  lowercase letters \<open>a\<close> to \<open>z\<close> and the digits \<open>0\<close> to \<open>9\<close>, for every sequence of
  doubles in \<open>[0, 1)\<close> that \<open>Math.random()\<close> returns.
\<close>

theorem generateRandomLocalPart_lower_alnum:
  assumes "\<forall>i < configured_length len. is_random_value (rnd i)"
  shows "length (generateRandomLocalPart rnd len) = configured_length len \<and>
         (\<forall>c \<in> set (generateRandomLocalPart rnd len). is_lower_alnum c)"
proof -
  let ?n = "configured_length len"
  from assms have r: "\<forall>j. 0 \<le> j \<and> j < ?n \<longrightarrow> is_random_value (rnd j)" by simp
  have g: "generateRandomLocalPart rnd len = generate_loop rnd ?n 0 []"
    by (simp add: generateRandomLocalPart_def configured_length_def)
  from generate_loop_length [OF r, of "[]"] have "length (generate_loop rnd ?n 0 []) = ?n" by simp
  moreover from generate_loop_set [OF r, of "[]"] chars_lower_alnum
  have "\<forall>c \<in> set (generate_loop rnd ?n 0 []). is_lower_alnum c" by auto
  ultimately show ?thesis by (simp add: g)
qed

lemma round_to_53_exact: "n < 2 ^ 53 \<Longrightarrow> round_to_53 n = n"
  using bit_length_le [of n 53] by (simp add: round_to_53_def)

lemma round_to_53_tie: "round_to_53 72057594037927932 = 72057594037927936"
  by (simp add: round_to_53_def bit_length.simps Let_def)

lemma floor_times_sample:
  "floor_times (2001599834386887, 53) 36 = 8"
  "floor_times (Suc 0, 4) 36 = 2" "floor_times (2, 4) 36 = 4" "floor_times (3, 4) 36 = 6"
  "floor_times (4, 4) 36 = 9" "floor_times (5, 4) 36 = 11" "floor_times (6, 4) 36 = 13"
  "floor_times (7, 4) 36 = 15" "floor_times (8, 4) 36 = 18" "floor_times (9, 4) 36 = 20"
  by (simp_all add: floor_times_def round_to_53_tie round_to_53_exact)

lemma chars_nth:
  "chars ! 8 = 0x69" "chars ! 2 = 0x63" "chars ! 4 = 0x65" "chars ! 6 = 0x67" "chars ! 9 = 0x6A"
  "chars ! 11 = 0x6C" "chars ! 13 = 0x6E" "chars ! 15 = 0x70" "chars ! 18 = 0x73"
  "chars ! 20 = 0x75"
  by (simp_all add: chars_def js_def)

lemma sample_picks:
  "pick_char (sample_rnd 0) = [0x69]" "pick_char (sample_rnd 1) = [0x63]"
  "pick_char (sample_rnd 2) = [0x65]" "pick_char (sample_rnd 3) = [0x67]"
  "pick_char (sample_rnd 4) = [0x6A]" "pick_char (sample_rnd 5) = [0x6C]"
  "pick_char (sample_rnd 6) = [0x6E]" "pick_char (sample_rnd 7) = [0x70]"
  "pick_char (sample_rnd 8) = [0x73]" "pick_char (sample_rnd 9) = [0x75]"
  by (simp_all add: sample_rnd_def pick_char_def length_chars floor_times_sample chars_nth)

lemma generate_loop_ten:
  "generate_loop rnd 10 0 [] =
     pick_char (rnd 0) @ pick_char (rnd 1) @ pick_char (rnd 2) @ pick_char (rnd 3) @
     pick_char (rnd 4) @ pick_char (rnd 5) @ pick_char (rnd 6) @ pick_char (rnd 7) @
     pick_char (rnd 8) @ pick_char (rnd 9)"
  by (simp add: generate_loop.simps eval_nat_numeral)

lemma sample_local_part: "generateRandomLocalPart sample_rnd None = js ''icegjlnpsu''"
proof -
  have "generateRandomLocalPart sample_rnd None = generate_loop sample_rnd 10 0 []"
    by (simp add: generateRandomLocalPart_def)
  also have "\<dots> = [0x69, 0x63, 0x65, 0x67, 0x6A, 0x6C, 0x6E, 0x70, 0x73, 0x75]"
    unfolding generate_loop_ten sample_picks by simp
  also have "\<dots> = js ''icegjlnpsu''" by (simp add: js_def)
  finally show ?thesis .
qed

theorem generateRandomLocalPart_lower_alnum_witness:
  "generateRandomLocalPart sample_rnd None = js ''icegjlnpsu'' \<and>
   length (generateRandomLocalPart sample_rnd None) = 10 \<and>
   list_all is_lower_alnum (generateRandomLocalPart sample_rnd None)"
proof -
  have h: "\<forall>i < configured_length None. is_random_value (sample_rnd i)"
    by (simp add: configured_length_def sample_rnd_def is_random_value_def)
  from generateRandomLocalPart_lower_alnum [OF h] sample_local_part show ?thesis
    by (simp add: configured_length_def list_all_iff)
qed

subsection \<open>extractEmail\<close>

lemma gt_not_line_terminator: "\<not> is_line_terminator gt_sign"
  by (simp add: is_line_terminator_def gt_sign_def)



































subsection \<open>The inbound-email handler\<close>

lemma Mailbox_findOne_Some:
  "Mailbox_findOne d t = Some mb \<Longrightarrow> mb \<in> set (mailboxes d) \<and> address mb = t \<and> isActive mb"
  by (auto simp: Mailbox_findOne_def find_Some_iff)

lemma Mailbox_findOne_None:
  "Mailbox_findOne d t = None \<longleftrightarrow> \<not> (\<exists>mb \<in> set (mailboxes d). address mb = t \<and> isActive mb)"
  by (auto simp: Mailbox_findOne_def find_None_iff)

lemma Message_create_Inr:
  "Message_create cs clock newId d mbId frm t subj txt htm = Inr (m, d') \<Longrightarrow>
   d' = d\<lparr>messages := messages d @ [m]\<rparr> \<and> m_id m = newId \<and> m_mailboxId m = mbId \<and>
   m_from m = frm \<and> m_to m = t \<and> m_receivedAt m = clock \<and> \<not> m_isRead m \<and>
   cast_path cs subj = Some (m_subject m) \<and> cast_path cs txt = Some (m_text m) \<and>
   cast_path cs htm = Some (m_html m)"
  by (auto simp: Message_create_def Let_def split: if_splits option.splits)

text \<open>The four ways the handler ends.\<close>

lemma inbound_email_cases:
  obtains
    (error) "inbound_email cs clock newId d p = webhook_error d"
  | (no_to) f where "extractEmail (rawTo p) = Inr []" "extractEmail (rawFrom p) = Inr f"
      "inbound_email cs clock newId d p =
         \<lparr>response = Response 200 (StatusBody ''ignored_no_to_email''), store = d, emitted = []\<rparr>"
  | (no_mailbox) t f where "extractEmail (rawTo p) = Inr t" "t \<noteq> []"
      "extractEmail (rawFrom p) = Inr f" "Mailbox_findOne d t = None"
      "inbound_email cs clock newId d p =
         \<lparr>response = Response 200 (StatusBody ''ignored_no_mailbox''), store = d, emitted = []\<rparr>"
  | (ok) t f mb m where "extractEmail (rawTo p) = Inr t" "t \<noteq> []"
      "extractEmail (rawFrom p) = Inr f" "Mailbox_findOne d t = Some mb"
      "Message_create cs clock newId d (mb_id mb) (if f \<noteq> [] then f else js ''unknown@unknown'') t
         (or_js (subject_of p) (JStr [])) (or_js (text_of p) (JStr []))
         (or_js (html_of p) (JStr [])) = Inr (m, d\<lparr>messages := messages d @ [m]\<rparr>)"
      "inbound_email cs clock newId d p =
         \<lparr>response = Response 200 (StatusBody ''ok''), store = d\<lparr>messages := messages d @ [m]\<rparr>,
          emitted = [\<lparr>e_room = js ''mailbox:'' @ oid_toString (mb_id mb), e_event = ''newMessage'',
                      e_payload = newMessage_payload m\<rparr>]\<rparr>"
proof (cases "extractEmail (rawTo p)")
  case (Inl e)
  then have "inbound_email cs clock newId d p = webhook_error d"
    by (simp add: inbound_email_def)
  then show ?thesis by (rule error)
next
  case t: (Inr t)
  show ?thesis
  proof (cases "extractEmail (rawFrom p)")
    case (Inl e)
    with t have "inbound_email cs clock newId d p = webhook_error d"
      by (simp add: inbound_email_def)
    then show ?thesis by (rule error)
  next
    case f: (Inr f)
    show ?thesis
    proof (cases "t = []")
      case True
      with t f show ?thesis by (intro no_to [of f]) (simp_all add: inbound_email_def)
    next
      case ne: False
      show ?thesis
      proof (cases "Mailbox_findOne d t")
        case None
        with t f ne show ?thesis
          by (intro no_mailbox [of t f]) (simp_all add: inbound_email_def)
      next
        case mb: (Some mb)
        let ?c = "Message_create cs clock newId d (mb_id mb)
          (if f \<noteq> [] then f else js ''unknown@unknown'') t
          (or_js (subject_of p) (JStr [])) (or_js (text_of p) (JStr []))
          (or_js (html_of p) (JStr []))"
        show ?thesis
        proof (cases ?c)
          case (Inl e)
          with t f ne mb have "inbound_email cs clock newId d p = webhook_error d"
            by (simp add: inbound_email_def)
          then show ?thesis by (rule error)
        next
          case (Inr r)
          obtain m d' where r: "r = (m, d')" by (cases r)
          with Inr have c: "?c = Inr (m, d')" by simp
          from Message_create_Inr [OF c] have d': "d' = d\<lparr>messages := messages d @ [m]\<rparr>" by simp
          from c d' have c': "?c = Inr (m, d\<lparr>messages := messages d @ [m]\<rparr>)" by simp
          from t f ne mb c' have
            "inbound_email cs clock newId d p =
               \<lparr>response = Response 200 (StatusBody ''ok''),
                store = d\<lparr>messages := messages d @ [m]\<rparr>,
                emitted = [\<lparr>e_room = js ''mailbox:'' @ oid_toString (mb_id mb),
                  e_event = ''newMessage'', e_payload = newMessage_payload m\<rparr>]\<rparr>"
            by (simp add: inbound_email_def)
          with t f ne mb c' show ?thesis by (intro ok [of t f mb m])
        qed
      qed
    qed
  qed
qed

text \<open>
  C10. One invocation of the inbound-email handler leaves the mailboxes as they were and
  either leaves the messages as they were or appends exactly one message to them; every
  outcome other than \<open>200 {status: "ok"}\<close> (the ignored and the error outcomes) inserts
  nothing.
\<close>

theorem inbound_email_frame:
  "mailboxes (store (inbound_email cs clock newId d p)) = mailboxes d \<and>
   (messages (store (inbound_email cs clock newId d p)) = messages d \<or>
    (\<exists>m. messages (store (inbound_email cs clock newId d p)) = messages d @ [m])) \<and>
   (response (inbound_email cs clock newId d p) \<noteq> Response 200 (StatusBody ''ok'') \<longrightarrow>
      messages (store (inbound_email cs clock newId d p)) = messages d)"
  by (rule inbound_email_cases [where cs = cs and clock = clock and newId = newId and d = d and p = p])
    (simp_all add: webhook_error_def)


lemma rawTo_falsy:
  assumes "\<not> truthy (get_prop p ''to_email'')" "\<not> truthy (get_prop p ''to'')"
    "\<not> truthy (get_prop p ''recipient'')" "\<not> truthy (get_prop p ''toAddress'')"
  shows "rawTo p = JStr []"
  using assms by (simp add: rawTo_def or_js_def)

text \<open>
  C5 (amended). When every alias of the \<open>to\<close> field is missing or empty, the normalized
  \<open>to\<close> address is empty. When the normalized \<open>to\<close> address is empty and the \<open>from\<close>
  field normalizes without a conversion error, the handler answers
  \<open>200 {status: "ignored_no_to_email"}\<close> whatever the store holds, leaves the store as it
  was and emits nothing.
\<close>

theorem inbound_email_ignored_no_to_email:
  "(\<not> truthy (get_prop p ''to_email'') \<and> \<not> truthy (get_prop p ''to'') \<and>
    \<not> truthy (get_prop p ''recipient'') \<and> \<not> truthy (get_prop p ''toAddress'')
      \<longrightarrow> extractEmail (rawTo p) = Inr []) \<and>
   (extractEmail (rawTo p) = Inr [] \<and> extractEmail (rawFrom p) = Inr f \<longrightarrow>
      inbound_email cs clock newId d p =
        \<lparr>response = Response 200 (StatusBody ''ignored_no_to_email''), store = d, emitted = []\<rparr>)"
proof (intro conjI impI)
  assume "\<not> truthy (get_prop p ''to_email'') \<and> \<not> truthy (get_prop p ''to'') \<and>
    \<not> truthy (get_prop p ''recipient'') \<and> \<not> truthy (get_prop p ''toAddress'')"
  then have "rawTo p = JStr []" by (simp add: rawTo_falsy)
  then show "extractEmail (rawTo p) = Inr []" by (simp add: extractEmail_def)
next
  assume "extractEmail (rawTo p) = Inr [] \<and> extractEmail (rawFrom p) = Inr f"
  then show "inbound_email cs clock newId d p =
        \<lparr>response = Response 200 (StatusBody ''ignored_no_to_email''), store = d, emitted = []\<rparr>"
    by (simp add: inbound_email_def)
qed

text \<open>
  C6 (amended). When the normalized \<open>to\<close> address is not empty, the \<open>from\<close> field
  normalizes without a conversion error and no active mailbox has that address, the
  handler answers \<open>200 {status: "ignored_no_mailbox"}\<close>, leaves the store as it was and
  emits nothing.
\<close>

theorem inbound_email_ignored_no_mailbox:
  assumes "extractEmail (rawTo p) = Inr t" and "t \<noteq> []"
    and "extractEmail (rawFrom p) = Inr f"
    and "\<not> (\<exists>mb \<in> set (mailboxes d). address mb = t \<and> isActive mb)"
  shows "inbound_email cs clock newId d p =
           \<lparr>response = Response 200 (StatusBody ''ignored_no_mailbox''), store = d, emitted = []\<rparr>"
proof -
  from assms(4) have "Mailbox_findOne d t = None" by (simp add: Mailbox_findOne_None)
  with assms(1-3) show ?thesis by (simp add: inbound_email_def)
qed

text \<open>
  C1 (amended). The mailbox that a message created by the handler refers to was in the
  store at ingestion with \<open>isActive\<close> true and with the normalized \<open>to\<close> address as its
  address. The lookup does not read \<open>expiresAt\<close>: the mailbox is unexpired when the
  store holds no expired mailbox at that time.
\<close>

theorem inbound_email_mailbox_active:
  assumes "messages (store (inbound_email cs clock newId d p)) = messages d @ [m]"
  shows "\<exists>mb \<in> set (mailboxes d). mb_id mb = m_mailboxId m \<and> isActive mb \<and> address mb = m_to m \<and>
           ((\<forall>x \<in> set (mailboxes d). clock < expiresAt x) \<longrightarrow> clock < expiresAt mb)"
proof (rule inbound_email_cases [where cs = cs and clock = clock and newId = newId and d = d and p = p])
  assume "inbound_email cs clock newId d p = webhook_error d"
  with assms show ?thesis by (simp add: webhook_error_def)
next
  fix f
  assume "inbound_email cs clock newId d p =
         \<lparr>response = Response 200 (StatusBody ''ignored_no_to_email''), store = d, emitted = []\<rparr>"
  with assms show ?thesis by simp
next
  fix t f
  assume "inbound_email cs clock newId d p =
         \<lparr>response = Response 200 (StatusBody ''ignored_no_mailbox''), store = d, emitted = []\<rparr>"
  with assms show ?thesis by simp
next
  fix t f mb m'
  assume mb: "Mailbox_findOne d t = Some mb"
    and c: "Message_create cs clock newId d (mb_id mb) (if f \<noteq> [] then f else js ''unknown@unknown'') t
         (or_js (subject_of p) (JStr [])) (or_js (text_of p) (JStr []))
         (or_js (html_of p) (JStr [])) = Inr (m', d\<lparr>messages := messages d @ [m']\<rparr>)"
    and o: "inbound_email cs clock newId d p =
         \<lparr>response = Response 200 (StatusBody ''ok''), store = d\<lparr>messages := messages d @ [m']\<rparr>,
          emitted = [\<lparr>e_room = js ''mailbox:'' @ oid_toString (mb_id mb), e_event = ''newMessage'',
                      e_payload = newMessage_payload m'\<rparr>]\<rparr>"
  from o assms have "m' = m" by simp
  with Message_create_Inr [OF c] have "m_mailboxId m = mb_id mb" "m_to m = t" by simp_all
  with Mailbox_findOne_Some [OF mb] show ?thesis by auto
qed

text \<open>
  C9. When the handler has created message \<open>m\<close>, it emits exactly one \<open>newMessage\<close>
  event, to the room of the mailbox of \<open>m\<close>, whose payload holds the fields \<open>id\<close>,
  \<open>from\<close>, \<open>to\<close>, \<open>subject\<close>, \<open>text\<close> and \<open>receivedAt\<close> of \<open>m\<close>, in this order and no
  other; it has no \<open>html\<close> field.
\<close>

theorem inbound_email_emits_public_fields:
  assumes "messages (store (inbound_email cs clock newId d p)) = messages d @ [m]"
  shows "emitted (inbound_email cs clock newId d p) =
           [\<lparr>e_room = js ''mailbox:'' @ oid_toString (m_mailboxId m), e_event = ''newMessage'',
             e_payload =
               [(''id'', FString (oid_toString (m_id m))), (''from'', FString (m_from m)),
                (''to'', FString (m_to m)), (''subject'', FString (m_subject m)),
                (''text'', FString (m_text m)), (''receivedAt'', FDate (m_receivedAt m))]\<rparr>] \<and>
         (\<forall>e \<in> set (emitted (inbound_email cs clock newId d p)).
            map fst (e_payload e) = [''id'', ''from'', ''to'', ''subject'', ''text'', ''receivedAt''] \<and>
            map_of (e_payload e) ''html'' = None)"
proof (rule inbound_email_cases [where cs = cs and clock = clock and newId = newId and d = d and p = p])
  assume "inbound_email cs clock newId d p = webhook_error d"
  with assms show ?thesis by (simp add: webhook_error_def)
next
  fix f
  assume "inbound_email cs clock newId d p =
         \<lparr>response = Response 200 (StatusBody ''ignored_no_to_email''), store = d, emitted = []\<rparr>"
  with assms show ?thesis by simp
next
  fix t f
  assume "inbound_email cs clock newId d p =
         \<lparr>response = Response 200 (StatusBody ''ignored_no_mailbox''), store = d, emitted = []\<rparr>"
  with assms show ?thesis by simp
next
  fix t f mb m'
  assume c: "Message_create cs clock newId d (mb_id mb) (if f \<noteq> [] then f else js ''unknown@unknown'') t
         (or_js (subject_of p) (JStr [])) (or_js (text_of p) (JStr []))
         (or_js (html_of p) (JStr [])) = Inr (m', d\<lparr>messages := messages d @ [m']\<rparr>)"
    and o: "inbound_email cs clock newId d p =
         \<lparr>response = Response 200 (StatusBody ''ok''), store = d\<lparr>messages := messages d @ [m']\<rparr>,
          emitted = [\<lparr>e_room = js ''mailbox:'' @ oid_toString (mb_id mb), e_event = ''newMessage'',
                      e_payload = newMessage_payload m'\<rparr>]\<rparr>"
  from o assms have "m' = m" by simp
  with Message_create_Inr [OF c] have "m_mailboxId m = mb_id mb" by simp
  with o \<open>m' = m\<close> show ?thesis by (simp add: newMessage_payload_def)
qed

text \<open>
  C3. With an active mailbox \<open>a@b.com\<close> in the store, the payload
  \<open>{to_email: "a@b.com", subject: "hi"}\<close> makes the handler append exactly one message,
  whose \<open>to\<close> is \<open>a@b.com\<close>, whose \<open>subject\<close> is \<open>hi\<close> and whose \<open>text\<close> is empty, and
  answer \<open>200 {status: "ok"}\<close>.
\<close>

theorem inbound_email_example:
  assumes "\<exists>mb \<in> set (mailboxes d). address mb = js ''a@b.com'' \<and> isActive mb"
  shows "\<exists>m. messages (store (inbound_email cs clock newId d example_payload)) = messages d @ [m] \<and>
           m_to m = js ''a@b.com'' \<and> m_subject m = js ''hi'' \<and> m_text m = [] \<and>
           mailboxes (store (inbound_email cs clock newId d example_payload)) = mailboxes d \<and>
           response (inbound_email cs clock newId d example_payload) = Response 200 (StatusBody ''ok'')"
proof -
  have rt: "rawTo example_payload = JStr (js ''a@b.com'')"
    by (simp add: rawTo_def example_payload_def get_prop_def or_js_def js_def)
  have rf: "rawFrom example_payload = JStr []"
    by (simp add: rawFrom_def example_payload_def get_prop_def or_js_def js_def)
  have subj: "subject_of example_payload = JStr (js ''hi'')"
    by (simp add: subject_of_def example_payload_def get_prop_def or_js_def js_def)
  have tx: "text_of example_payload = JStr []"
    by (simp add: text_of_def example_payload_def get_prop_def or_js_def js_def)
  have htm: "html_of example_payload = JStr []"
    by (simp add: html_of_def example_payload_def get_prop_def or_js_def js_def)
  have e: "extractEmail (JStr (js ''a@b.com'')) = Inr (js ''a@b.com'')"
    by (simp add: extractEmail_def trim_def js_def is_white_space_def is_line_terminator_def
        lt_sign_def)
  have e': "extractEmail (JStr []) = Inr []" by (simp add: extractEmail_def)
  have ne: "js ''a@b.com'' \<noteq> []" "js ''hi'' \<noteq> []" "js ''unknown@unknown'' \<noteq> []"
    by (simp_all add: js_def)
  from assms have "Mailbox_findOne d (js ''a@b.com'') \<noteq> None"
    by (simp add: Mailbox_findOne_None)
  then obtain mb where mb: "Mailbox_findOne d (js ''a@b.com'') = Some mb" by auto
  show ?thesis
    by (simp add: inbound_email_def rt rf subj tx htm e e' ne mb Message_create_def
        cast_path_def or_js_def Let_def)
qed


subsection \<open>Sample runs\<close>

lemma example_fields:
  "rawTo example_payload = JStr (js ''a@b.com'')"
  "rawFrom example_payload = JStr []"
  "subject_of example_payload = JStr (js ''hi'')"
  "text_of example_payload = JStr []"
  "html_of example_payload = JStr []"
  by (simp_all add: rawTo_def rawFrom_def subject_of_def text_of_def html_of_def
      example_payload_def get_prop_def or_js_def js_def)

lemma extractEmail_plain: "extractEmail (JStr (js ''a@b.com'')) = Inr (js ''a@b.com'')"
  by (simp add: extractEmail_def trim_def js_def is_white_space_def is_line_terminator_def
      lt_sign_def)

lemma extractEmail_empty: "extractEmail (JStr []) = Inr []"
  by (simp add: extractEmail_def)

lemma example_run:
  "inbound_email strict_cast clock example_id example_db example_payload =
     \<lparr>response = Response 200 (StatusBody ''ok''),
      store = \<lparr>mailboxes = [example_mailbox], messages = [example_message clock]\<rparr>,
      emitted = [\<lparr>e_room = js ''mailbox:6721a0000000000000000001'', e_event = ''newMessage'',
                  e_payload = newMessage_payload (example_message clock)\<rparr>]\<rparr>"
proof -
  have f: "Mailbox_findOne example_db (js ''a@b.com'') = Some example_mailbox"
    by (simp add: Mailbox_findOne_def example_db_def example_mailbox_def)
  have ne: "js ''a@b.com'' \<noteq> []" "js ''hi'' \<noteq> []" "js ''unknown@unknown'' \<noteq> []"
    by (simp_all add: js_def)
  have r: "js ''mailbox:'' @ js ''6721a0000000000000000001'' = js ''mailbox:6721a0000000000000000001''"
    by (simp add: js_def)
  have u: "\<And>m. example_db\<lparr>messages := messages example_db @ [m]\<rparr> =
      \<lparr>mailboxes = [example_mailbox], messages = [m]\<rparr>"
    by (simp add: example_db_def)
  have i: "mb_id example_mailbox = ObjectId (js ''6721a0000000000000000001'')"
    by (simp add: example_mailbox_def)
  show ?thesis
    by (simp add: inbound_email_def example_fields extractEmail_plain extractEmail_empty f ne r u i
        Message_create_def cast_path_def or_js_def Let_def example_message_def)
qed

lemma throwing_from_fields:
  "rawTo throwing_from = JStr []"
  "rawFrom throwing_from = JObj [(js ''toString'', JNum 1)]"
  "rawTo throwing_from_with_to = JStr (js ''x@y.z'')"
  "rawFrom throwing_from_with_to = JObj [(js ''toString'', JNum 1)]"
  by (simp_all add: rawTo_def rawFrom_def throwing_from_def throwing_from_with_to_def
      get_prop_def or_js_def js_def)

lemma extractEmail_throws: "extractEmail (JObj [(js ''toString'', JNum 1)]) = Inl TypeError"
  by (simp add: extractEmail_def)

lemma extractEmail_xyz: "extractEmail (JStr (js ''x@y.z'')) = Inr (js ''x@y.z'')"
  by (simp add: extractEmail_def trim_def js_def is_white_space_def is_line_terminator_def
      lt_sign_def)

lemma throwing_from_run:
  "inbound_email cs clock newId d throwing_from = webhook_error d"
  "inbound_email cs clock newId d throwing_from_with_to = webhook_error d"
  by (simp_all add: inbound_email_def throwing_from_fields extractEmail_throws extractEmail_empty
      extractEmail_xyz)

lemma empty_payload_fields: "rawTo [] = JStr []" "rawFrom [] = JStr []"
  by (simp_all add: rawTo_def rawFrom_def get_prop_def or_js_def)

lemma empty_payload_run:
  "inbound_email cs clock newId d [] =
     \<lparr>response = Response 200 (StatusBody ''ignored_no_to_email''), store = d, emitted = []\<rparr>"
  by (simp add: inbound_email_def empty_payload_fields extractEmail_empty)

lemma example_db_fields:
  "mailboxes example_db = [example_mailbox]" "messages example_db = []"
  "mailboxes empty_db = []" "messages empty_db = []"
  by (simp_all add: example_db_def empty_db_def)

lemma example_mailbox_fields:
  "mb_id example_mailbox = ObjectId (js ''6721a0000000000000000001'')"
  "address example_mailbox = js ''a@b.com''"
  "expiresAt example_mailbox = 3600000" "isActive example_mailbox"
  by (simp_all add: example_mailbox_def)

lemma example_message_fields:
  "m_id (example_message c) = example_id"
  "m_mailboxId (example_message c) = ObjectId (js ''6721a0000000000000000001'')"
  "m_from (example_message c) = js ''unknown@unknown''"
  "m_to (example_message c) = js ''a@b.com''"
  "m_subject (example_message c) = js ''hi''"
  "m_text (example_message c) = []"
  "m_receivedAt (example_message c) = c"
  by (simp_all add: example_message_def)

lemma example_run_messages:
  "messages (store (inbound_email strict_cast clock example_id example_db example_payload)) =
     messages example_db @ [example_message clock]"
  by (simp add: example_run example_db_fields)

theorem inbound_email_frame_witness:
  "mailboxes (store (inbound_email strict_cast 1000 example_id example_db throwing_from)) =
     mailboxes example_db \<and>
   messages (store (inbound_email strict_cast 1000 example_id example_db throwing_from)) =
     messages example_db"
proof -
  have "response (inbound_email strict_cast 1000 example_id example_db throwing_from)
      \<noteq> Response 200 (StatusBody ''ok'')"
    by (simp add: throwing_from_run webhook_error_def)
  with inbound_email_frame [of strict_cast 1000 example_id example_db throwing_from]
  show ?thesis by blast
qed

text \<open>
  C5 as stated fails: with no \<open>to\<close> field and the \<open>from\<close> field \<open>{"toString": 1}\<close>,
  \<open>String\<close> throws while \<open>from\<close> is normalized, before the \<open>to\<close> address is tested,
  and the handler answers 500.
\<close>

theorem inbound_email_ignored_no_to_email_counterexample:
  "extractEmail (rawTo throwing_from) = Inr [] \<and>
   response (inbound_email strict_cast 1000 example_id example_db throwing_from) =
     Response 500 (ErrorBody ''Webhook error'')"
  by (simp add: throwing_from_fields extractEmail_empty throwing_from_run webhook_error_def)

theorem inbound_email_ignored_no_to_email_witness:
  "inbound_email strict_cast 1000 example_id example_db [] =
     \<lparr>response = Response 200 (StatusBody ''ignored_no_to_email''), store = example_db,
      emitted = []\<rparr>"
proof -
  have a: "\<not> truthy (get_prop [] ''to_email'') \<and> \<not> truthy (get_prop [] ''to'') \<and>
    \<not> truthy (get_prop [] ''recipient'') \<and> \<not> truthy (get_prop [] ''toAddress'')"
    by (simp add: get_prop_def)
  have b: "extractEmail (rawFrom []) = Inr []"
    by (simp add: empty_payload_fields extractEmail_empty)
  from inbound_email_ignored_no_to_email [of "[]" "[]" strict_cast 1000 example_id example_db] a b
  show ?thesis by blast
qed

text \<open>
  C6 as stated fails on an empty store: the empty payload, whose normalized \<open>to\<close> address
  is empty, is answered with \<open>ignored_no_to_email\<close>; and a payload with the address
  \<open>x@y.z\<close> and the \<open>from\<close> field \<open>{"toString": 1}\<close> is answered with 500.
\<close>

theorem inbound_email_ignored_no_mailbox_counterexample:
  "mailboxes empty_db = [] \<and>
   extractEmail (rawTo []) = Inr [] \<and>
   response (inbound_email strict_cast 1000 example_id empty_db []) =
     Response 200 (StatusBody ''ignored_no_to_email'') \<and>
   extractEmail (rawTo throwing_from_with_to) = Inr (js ''x@y.z'') \<and>
   response (inbound_email strict_cast 1000 example_id empty_db throwing_from_with_to) =
     Response 500 (ErrorBody ''Webhook error'')"
  by (simp add: example_db_fields empty_payload_fields extractEmail_empty throwing_from_fields
      extractEmail_xyz throwing_from_run webhook_error_def empty_payload_run)

theorem inbound_email_ignored_no_mailbox_witness:
  "inbound_email strict_cast 1000 example_id example_db unknown_to_payload =
     \<lparr>response = Response 200 (StatusBody ''ignored_no_mailbox''), store = example_db,
      emitted = []\<rparr>"
proof -
  have rt: "rawTo unknown_to_payload = JStr (js ''Nobody <x@y.z>'')"
    and rf: "rawFrom unknown_to_payload = JStr []"
    by (simp_all add: rawTo_def rawFrom_def unknown_to_payload_def get_prop_def or_js_def js_def)
  have e: "extractEmail (JStr (js ''Nobody <x@y.z>'')) = Inr (js ''x@y.z'')"
    by (simp add: extractEmail_def trim_def js_def is_white_space_def is_line_terminator_def
        lt_sign_def gt_sign_def)
  have 1: "extractEmail (rawTo unknown_to_payload) = Inr (js ''x@y.z'')" by (simp add: rt e)
  have 2: "js ''x@y.z'' \<noteq> []" by (simp add: js_def)
  have 3: "extractEmail (rawFrom unknown_to_payload) = Inr []" by (simp add: rf extractEmail_empty)
  have 4: "\<not> (\<exists>mb \<in> set (mailboxes example_db). address mb = js ''x@y.z'' \<and> isActive mb)"
    by (simp add: example_db_fields example_mailbox_fields js_def)
  from inbound_email_ignored_no_mailbox [OF 1 2 3 4] show ?thesis .
qed

text \<open>
  C1 as stated fails: one millisecond after \<open>expiresAt\<close>, a mailbox that is still in
  the store receives the message.
\<close>

theorem inbound_email_mailbox_active_counterexample:
  "messages (store (inbound_email strict_cast 3600001 example_id example_db example_payload)) =
     messages example_db @ [example_message 3600001] \<and>
   mailboxes example_db = [example_mailbox] \<and>
   m_mailboxId (example_message 3600001) = mb_id example_mailbox \<and>
   isActive example_mailbox \<and>
   \<not> 3600001 < expiresAt example_mailbox"
  by (simp add: example_run_messages example_db_fields example_message_fields
      example_mailbox_fields)

theorem inbound_email_mailbox_active_witness:
  "m_mailboxId (example_message 1000) = mb_id example_mailbox \<and> isActive example_mailbox \<and>
   address example_mailbox = m_to (example_message 1000) \<and> 1000 < expiresAt example_mailbox"
proof -
  from inbound_email_mailbox_active [OF example_run_messages [of 1000]] show ?thesis
    by (simp add: example_db_fields example_mailbox_fields)
qed

theorem inbound_email_emits_public_fields_witness:
  "emitted (inbound_email strict_cast 1000 example_id example_db example_payload) =
     [\<lparr>e_room = js ''mailbox:6721a0000000000000000001'', e_event = ''newMessage'',
       e_payload =
         [(''id'', FString (js ''6721a0000000000000000002'')),
          (''from'', FString (js ''unknown@unknown'')), (''to'', FString (js ''a@b.com'')),
          (''subject'', FString (js ''hi'')), (''text'', FString []),
          (''receivedAt'', FDate 1000)]\<rparr>]"
proof -
  have r: "js ''mailbox:'' @ js ''6721a0000000000000000001'' = js ''mailbox:6721a0000000000000000001''"
    by (simp add: js_def)
  from inbound_email_emits_public_fields [OF example_run_messages [of 1000], THEN conjunct1]
  show ?thesis
    by (simp add: example_message_fields example_id_def r)
qed

theorem inbound_email_example_witness:
  "\<exists>m. messages (store (inbound_email strict_cast 1000 example_id example_db example_payload)) = [m] \<and>
     m_to m = js ''a@b.com'' \<and> m_subject m = js ''hi'' \<and> m_text m = []"
proof -
  have "\<exists>mb \<in> set (mailboxes example_db). address mb = js ''a@b.com'' \<and> isActive mb"
    by (simp add: example_db_fields example_mailbox_fields)
  from inbound_email_example [OF this, of strict_cast 1000 example_id] show ?thesis
    by (auto simp: example_db_fields)
qed

subsection \<open>Mailbox creation\<close>

lemma Mailbox_create_Inr:
  "Mailbox_create clock newId d addr expires = Inr (mb, d') \<Longrightarrow>
   d' = d\<lparr>mailboxes := mailboxes d @ [mb]\<rparr> \<and> expires = Some (expiresAt mb) \<and>
   createdAt mb = clock \<and> mb_id mb = newId \<and> address mb = addr \<and> isActive mb"
  by (auto simp: Mailbox_create_def Let_def split: option.splits if_splits)

lemma new_Date_Some: "new_Date ms = Some t \<Longrightarrow> t = ms"
  by (simp add: new_Date_def split: if_splits)

text \<open>
  C2 (amended). For every mailbox the creation endpoint stores, \<open>expiresAt\<close> is the
  handler's reading of the clock plus the configured time to live (\<open>MAILBOX_TTL_MINUTES\<close>
  minutes, 60 by default), and \<open>createdAt\<close> is the reading the schema default takes when
  the document is built. So \<open>expiresAt - createdAt\<close> is the time to live minus the time
  between the two readings: it is the time to live exactly when the readings coincide.
\<close>

theorem create_mailbox_expiry:
  assumes "create_mailbox e rnd now clock newId d = (Response 200 b, d')"
  shows "\<exists>mb. mailboxes d' = mailboxes d @ [mb] \<and> messages d' = messages d \<and>
           expiresAt mb = now + ttl_ms e \<and> createdAt mb = clock \<and>
           expiresAt mb - createdAt mb = ttl_ms e - (clock - now) \<and>
           (clock = now \<longrightarrow> expiresAt mb - createdAt mb = ttl_ms e)"
proof -
  let ?addr = "generateRandomLocalPart rnd None @ js ''@'' @
     (case MAIL_DOMAIN e of None \<Rightarrow> js ''example.com''
      | Some dm \<Rightarrow> if dm \<noteq> [] then dm else js ''example.com'')"
  let ?c = "Mailbox_create clock newId d ?addr (new_Date (now + ttl_ms e))"
  have u: "create_mailbox e rnd now clock newId d =
      (case ?c of
         Inl err \<Rightarrow> (Response 500 (ErrorBody ''Failed to create mailbox''), d)
       | Inr (mb, d') \<Rightarrow>
           (Response 200 (MailboxBody (oid_toString (mb_id mb)) (address mb) (expiresAt mb)), d'))"
    by (simp add: create_mailbox_def ttl_ms_def Let_def)
  show ?thesis
  proof (cases ?c)
    case (Inl err)
    with u assms show ?thesis by simp
  next
    case (Inr r)
    obtain mb d2 where r: "r = (mb, d2)" by (cases r)
    with Inr have c: "?c = Inr (mb, d2)" by simp
    with u assms have "d2 = d'" by simp
    with Mailbox_create_Inr [OF c]
    have d': "d' = d\<lparr>mailboxes := mailboxes d @ [mb]\<rparr>"
      and x: "new_Date (now + ttl_ms e) = Some (expiresAt mb)"
      and k: "createdAt mb = clock" by simp_all
    from new_Date_Some [OF x] have "expiresAt mb = now + ttl_ms e" .
    with d' k have "mailboxes d' = mailboxes d @ [mb] \<and> messages d' = messages d \<and>
           expiresAt mb = now + ttl_ms e \<and> createdAt mb = clock \<and>
           expiresAt mb - createdAt mb = ttl_ms e - (clock - now) \<and>
           (clock = now \<longrightarrow> expiresAt mb - createdAt mb = ttl_ms e)" by simp
    then show ?thesis ..
  qed
qed

lemma sample_create:
  "create_mailbox default_env sample_rnd now clock example_id empty_db =
     (if \<bar>now + 3600000\<bar> \<le> 8640000000000000
      then (Response 200 (MailboxBody (js ''6721a0000000000000000002'')
              (js ''icegjlnpsu@example.com'') (now + 3600000)),
            \<lparr>mailboxes = [created_mailbox clock (now + 3600000)], messages = []\<rparr>)
      else (Response 500 (ErrorBody ''Failed to create mailbox''), empty_db))"
proof -
  have a: "js ''icegjlnpsu'' @ js ''@'' @ js ''example.com'' = js ''icegjlnpsu@example.com''"
    by (simp add: js_def)
  have n: "js ''icegjlnpsu@example.com'' \<noteq> []" by (simp add: js_def)
  show ?thesis
    by (simp add: create_mailbox_def default_env_def sample_local_part a n Mailbox_create_def
        new_Date_def empty_db_def created_mailbox_def example_id_def Let_def)
qed

lemma created_mailbox_fields:
  "createdAt (created_mailbox c x) = c" "expiresAt (created_mailbox c x) = x"
  by (simp_all add: created_mailbox_def)

lemma ttl_ms_default: "ttl_ms default_env = 3600000"
  by (simp add: ttl_ms_def default_env_def)

text \<open>
  C2 as stated fails: with the default of 60 minutes and the document built one
  millisecond after the handler read the clock, the difference is 3599999 ms.
\<close>

theorem create_mailbox_expiry_counterexample:
  "mailboxes (snd (create_mailbox default_env sample_rnd 0 1 example_id empty_db)) =
     [created_mailbox 1 3600000] \<and>
   ttl_ms default_env = 3600000 \<and>
   expiresAt (created_mailbox 1 3600000) - createdAt (created_mailbox 1 3600000) = 3599999"
  by (simp add: sample_create ttl_ms_default created_mailbox_fields)

theorem create_mailbox_expiry_witness:
  "mailboxes (snd (create_mailbox default_env sample_rnd 5000 5000 example_id empty_db)) =
     [created_mailbox 5000 3605000] \<and>
   expiresAt (created_mailbox 5000 3605000) - createdAt (created_mailbox 5000 3605000) =
     ttl_ms default_env"
proof -
  have r: "create_mailbox default_env sample_rnd 5000 5000 example_id empty_db =
     (Response 200 (MailboxBody (js ''6721a0000000000000000002'')
        (js ''icegjlnpsu@example.com'') 3605000),
      \<lparr>mailboxes = [created_mailbox 5000 3605000], messages = []\<rparr>)"
    by (simp add: sample_create)
  from create_mailbox_expiry [OF r] have
    "expiresAt (created_mailbox 5000 3605000) - createdAt (created_mailbox 5000 3605000) =
     ttl_ms default_env"
    by (simp add: example_db_fields)
  then show ?thesis by (simp add: r)
qed

subsection \<open>Listing the messages of a mailbox\<close>

lemma Message_find_sorted_desc:
  "sorted_wrt (\<lambda>a b. m_receivedAt a \<ge> m_receivedAt b) (Message_find_sorted d mbId)"
proof -
  have "sorted (map (\<lambda>m. - m_receivedAt m) (Message_find_sorted d mbId))"
    unfolding Message_find_sorted_def by (rule sorted_sort_key)
  then show ?thesis by (simp add: sorted_map)
qed

lemma Message_find_sorted_mset:
  "mset (Message_find_sorted d mbId) = filter_mset (\<lambda>m. m_mailboxId m = mbId) (mset (messages d))"
  by (simp add: Message_find_sorted_def)

text \<open>
  C7. For every mailbox id (the ObjectId that the route parameter is cast to), the
  listing answers 200 with one record for each stored message that has this
  \<open>mailboxId\<close>, and for no other: there is a list \<open>ms\<close> holding exactly these
  messages, each once, in non-increasing order of \<open>receivedAt\<close>, and the body lists, in
  the same order, the \<open>id\<close> (as text), \<open>from\<close>, \<open>to\<close>, \<open>subject\<close>, \<open>text\<close>, \<open>html\<close>,
  \<open>receivedAt\<close> and \<open>isRead\<close> of each. When no message has this \<open>mailboxId\<close> the
  answer is 200 with the empty list.
\<close>

theorem get_mailbox_messages_newest_first:
  assumes "castObjectId idParam = Some mbId"
  shows "\<exists>ms fs. get_mailbox_messages castObjectId d idParam = Response 200 (MessagesBody fs) \<and>
              mset ms = filter_mset (\<lambda>m. m_mailboxId m = mbId) (mset (messages d)) \<and>
              sorted_wrt (\<lambda>a b. m_receivedAt a \<ge> m_receivedAt b) ms \<and>
              fs = map (\<lambda>m. \<lparr>f_id = (case m_id m of ObjectId h \<Rightarrow> h), f_from = m_from m,
                               f_to = m_to m, f_subject = m_subject m, f_text = m_text m,
                               f_html = m_html m, f_receivedAt = m_receivedAt m,
                               f_isRead = m_isRead m\<rparr>) ms \<and>
              sorted_wrt (\<lambda>a b. f_receivedAt a \<ge> f_receivedAt b) fs \<and>
              ((\<forall>m \<in> set (messages d). m_mailboxId m \<noteq> mbId) \<longrightarrow> fs = [])"
proof -
  let ?ms = "Message_find_sorted d mbId"
  let ?f = "\<lambda>m. \<lparr>f_id = (case m_id m of ObjectId h \<Rightarrow> h), f_from = m_from m,
                 f_to = m_to m, f_subject = m_subject m, f_text = m_text m,
                 f_html = m_html m, f_receivedAt = m_receivedAt m, f_isRead = m_isRead m\<rparr>"
  have f: "format_message = ?f"
  proof
    fix m
    show "format_message m = ?f m"
      by (cases "m_id m") (simp add: format_message_def)
  qed
  have 1: "get_mailbox_messages castObjectId d idParam = Response 200 (MessagesBody (map ?f ?ms))"
    using assms by (simp add: get_mailbox_messages_def f)
  have 2: "mset ?ms = filter_mset (\<lambda>m. m_mailboxId m = mbId) (mset (messages d))"
    by (rule Message_find_sorted_mset)
  have 3: "sorted_wrt (\<lambda>a b. m_receivedAt a \<ge> m_receivedAt b) ?ms"
    by (rule Message_find_sorted_desc)
  from 3 have 4: "sorted_wrt (\<lambda>a b. f_receivedAt a \<ge> f_receivedAt b) (map ?f ?ms)"
    by (simp add: sorted_wrt_map)
  have 5: "(\<forall>m \<in> set (messages d). m_mailboxId m \<noteq> mbId) \<longrightarrow> map ?f ?ms = []"
    by (simp add: Message_find_sorted_def filter_empty_conv)
  from 1 2 3 4 5 show ?thesis by blast
qed

theorem get_mailbox_messages_newest_first_witness:
  "get_mailbox_messages sample_castObjectId two_message_db (js ''6721a0000000000000000001'') =
     Response 200 (MessagesBody
       [\<lparr>f_id = js ''6721a0000000000000000004'', f_from = js ''c@d.org'', f_to = js ''a@b.com'',
         f_subject = js ''second'', f_text = js ''later'', f_html = js ''<p>later</p>'',
         f_receivedAt = 2000, f_isRead = False\<rparr>,
        \<lparr>f_id = js ''6721a0000000000000000003'', f_from = js ''unknown@unknown'',
         f_to = js ''a@b.com'', f_subject = js ''first'', f_text = [], f_html = [],
         f_receivedAt = 1000, f_isRead = False\<rparr>]) \<and>
   get_mailbox_messages sample_castObjectId two_message_db (js ''6721a0000000000000000009'') =
     Response 200 (MessagesBody [])"
proof -
  have c: "sample_castObjectId (js ''6721a0000000000000000001'') =
      Some (ObjectId (js ''6721a0000000000000000001''))"
    "sample_castObjectId (js ''6721a0000000000000000009'') =
      Some (ObjectId (js ''6721a0000000000000000009''))"
    by (simp_all add: sample_castObjectId_def js_def)
  have ne: "js ''6721a0000000000000000001'' \<noteq> js ''6721a0000000000000000009''"
    "js ''6721a0000000000000000005'' \<noteq> js ''6721a0000000000000000009''"
    "js ''6721a0000000000000000005'' \<noteq> js ''6721a0000000000000000001''"
    by (simp_all add: js_def)
  have m: "messages two_message_db = [older_message, other_message, newer_message]"
    by (simp add: two_message_db_def)
  have i: "m_mailboxId older_message = ObjectId (js ''6721a0000000000000000001'')"
    "m_mailboxId newer_message = ObjectId (js ''6721a0000000000000000001'')"
    "m_mailboxId other_message = ObjectId (js ''6721a0000000000000000005'')"
    "m_receivedAt older_message = 1000" "m_receivedAt newer_message = 2000"
    by (simp_all add: older_message_def newer_message_def other_message_def)
  have n: "\<forall>m \<in> set (messages two_message_db).
      m_mailboxId m \<noteq> ObjectId (js ''6721a0000000000000000009'')"
    by (simp add: m i ne)
  from get_mailbox_messages_newest_first
    [where castObjectId = sample_castObjectId and d = two_message_db
       and idParam = "js ''6721a0000000000000000009''"
       and mbId = "ObjectId (js ''6721a0000000000000000009'')"] c(2) n
  have 2: "get_mailbox_messages sample_castObjectId two_message_db (js ''6721a0000000000000000009'') =
     Response 200 (MessagesBody [])" by auto
  have a: "Message_find_sorted two_message_db (ObjectId (js ''6721a0000000000000000001'')) =
      [newer_message, older_message]"
    by (simp add: Message_find_sorted_def m i ne)
  have 1: "get_mailbox_messages sample_castObjectId two_message_db (js ''6721a0000000000000000001'') =
     Response 200 (MessagesBody
       [\<lparr>f_id = js ''6721a0000000000000000004'', f_from = js ''c@d.org'', f_to = js ''a@b.com'',
         f_subject = js ''second'', f_text = js ''later'', f_html = js ''<p>later</p>'',
         f_receivedAt = 2000, f_isRead = False\<rparr>,
        \<lparr>f_id = js ''6721a0000000000000000003'', f_from = js ''unknown@unknown'',
         f_to = js ''a@b.com'', f_subject = js ''first'', f_text = [], f_html = [],
         f_receivedAt = 1000, f_isRead = False\<rparr>])"
    by (simp add: get_mailbox_messages_def c a format_message_def older_message_def
        newer_message_def)
  from 1 2 show ?thesis by simp
qed

end
